theory Spec2Isabelle
  imports Complex_Main "HOL-Library.AList" "HOL-Library.Sublist"
begin

section \<open>Python values and the primitives app.py applies to them\<close>

text \<open>
  app.py keeps its whole state in dynamically typed Python objects: whatever
  \<^verbatim>\<open>json.load\<close> returned, changed in place by the store operations. The model
  therefore works on Python values, not on typed records. A \<^verbatim>\<open>str\<close> is a
  \<open>string\<close> whose characters stand for the code points below 256; a \<^verbatim>\<open>str\<close> that
  holds a code point of 256 or more (a lone surrogate among them, which \<^verbatim>\<open>json.load\<close>
  reads from an escape) is \<open>PWide\<close> with the list of its code points. The keys of
  a dict, the ids and the inputs that the pages pass are of the first kind. A \<^verbatim>\<open>dict\<close>
  with \<^verbatim>\<open>str\<close> keys is an association list in insertion order (Python dicts keep
  it, and \<^verbatim>\<open>json.dump\<close> writes in that order). A float is never computed with;
  only its truth value is ever read.
\<close>

datatype pyfloat = Finite real | PosInf | NegInf | NaN

datatype pyval =
    PNone
  | PBool bool
  | PInt int
  | PFloat pyfloat
  | PStr string
  | PWide "nat list"
  | PList "pyval list"
  | PDict "(string \<times> pyval) list"

text \<open>The exceptions that the modelled code can raise.\<close>

datatype pyerror =
  TypeError | KeyError | AttributeError | ValueError | JSONDecodeError | UnicodeEncodeError | OSError

text \<open>\<^verbatim>\<open>sub in s\<close> on two strings: \<open>sub\<close> occurs in \<open>s\<close> as a contiguous piece.\<close>

fun str_contains :: "string \<Rightarrow> string \<Rightarrow> bool" where
  "str_contains [] sub = (sub = [])"
| "str_contains (c # cs) sub = (prefix sub (c # cs) \<or> str_contains cs sub)"

fun cps_contains :: "nat list \<Rightarrow> nat list \<Rightarrow> bool" where
  "cps_contains [] sub = (sub = [])"
| "cps_contains (c # cs) sub = (prefix sub (c # cs) \<or> cps_contains cs sub)"

text \<open>\<^verbatim>\<open>k in v\<close> for a \<^verbatim>\<open>str\<close> \<open>k\<close>: key membership on a dict, element
  membership on a list, substring test on a str, \<^verbatim>\<open>TypeError\<close> on anything else.\<close>

fun py_in :: "string \<Rightarrow> pyval \<Rightarrow> pyerror + bool" where
  "py_in k (PDict kvs) = Inr (map_of kvs k \<noteq> None)"
| "py_in k (PList xs) = Inr (PStr k \<in> set xs)"
| "py_in k (PStr s) = Inr (str_contains s k)"
| "py_in k (PWide cps) = Inr (cps_contains cps (map of_char k))"
| "py_in k v = Inl TypeError"

text \<open>\<^verbatim>\<open>v[k]\<close> for a \<^verbatim>\<open>str\<close> \<open>k\<close>: only a dict can be indexed by a str.\<close>

fun py_getitem :: "pyval \<Rightarrow> string \<Rightarrow> pyerror + pyval" where
  "py_getitem (PDict kvs) k = (case map_of kvs k of None \<Rightarrow> Inl KeyError | Some x \<Rightarrow> Inr x)"
| "py_getitem v k = Inl TypeError"

text \<open>\<^verbatim>\<open>v[k] = x\<close> for a \<^verbatim>\<open>str\<close> \<open>k\<close>: an existing key keeps its place, a new
  key goes to the end.\<close>

fun py_setitem :: "pyval \<Rightarrow> string \<Rightarrow> pyval \<Rightarrow> pyerror + pyval" where
  "py_setitem (PDict kvs) k x = Inr (PDict (AList.update k x kvs))"
| "py_setitem v k x = Inl TypeError"


text \<open>\<^verbatim>\<open>v.append(x)\<close> and \<^verbatim>\<open>v.remove(s)\<close> exist on lists only.\<close>

fun py_append :: "pyval \<Rightarrow> pyval \<Rightarrow> pyerror + pyval" where
  "py_append (PList xs) x = Inr (PList (xs @ [x]))"
| "py_append v x = Inl AttributeError"

fun py_remove :: "pyval \<Rightarrow> string \<Rightarrow> pyerror + pyval" where
  "py_remove (PList xs) s =
     (if PStr s \<in> set xs then Inr (PList (remove1 (PStr s) xs)) else Inl ValueError)"
| "py_remove v s = Inl AttributeError"

text \<open>What a \<^verbatim>\<open>for\<close> loop or a comprehension iterates over; a str yields its
  characters, each a str of length one.\<close>

definition one_char :: "nat \<Rightarrow> pyval" where
  "one_char c = (if c < 256 then PStr [char_of c] else PWide [c])"

fun py_iter :: "pyval \<Rightarrow> pyerror + pyval list" where
  "py_iter (PList xs) = Inr xs"
| "py_iter (PDict kvs) = Inr (map (\<lambda>kv. PStr (fst kv)) kvs)"
| "py_iter (PStr s) = Inr (map (\<lambda>c. PStr [c]) s)"
| "py_iter (PWide cps) = Inr (map one_char cps)"
| "py_iter v = Inl TypeError"

text \<open>The truth value \<^verbatim>\<open>not\<close> and \<^verbatim>\<open>if\<close> read off a value.\<close>

fun py_truthy :: "pyval \<Rightarrow> bool" where
  "py_truthy PNone = False"
| "py_truthy (PBool b) = b"
| "py_truthy (PInt i) = (i \<noteq> 0)"
| "py_truthy (PFloat f) = (f \<noteq> Finite 0)"
| "py_truthy (PStr s) = (s \<noteq> [])"
| "py_truthy (PWide cps) = (cps \<noteq> [])"
| "py_truthy (PList xs) = (xs \<noteq> [])"
| "py_truthy (PDict kvs) = (kvs \<noteq> [])"

text \<open>\<^verbatim>\<open>str.strip()\<close>: the white space among the code points below 256 is
  9 to 13, 28 to 32, 133 and 160.\<close>

definition is_space :: "char \<Rightarrow> bool" where
  "is_space c = (let n = (of_char c :: nat) in
     (9 \<le> n \<and> n \<le> 13) \<or> (28 \<le> n \<and> n \<le> 32) \<or> n = 133 \<or> n = 160)"

definition strip :: "string \<Rightarrow> string" where
  "strip s = rev (dropWhile is_space (rev (dropWhile is_space s)))"

text \<open>\<^verbatim>\<open>str(n)\<close> of an integer, as the f-string of the backup name formats it.\<close>

definition digit_char :: "nat \<Rightarrow> char" where
  "digit_char d = ''0123456789'' ! d"

function str_nat :: "nat \<Rightarrow> string" where
  "str_nat n = (if n < 10 then [digit_char n] else str_nat (n div 10) @ [digit_char (n mod 10)])"
  by pat_completeness auto
termination
  by (relation "measure id") auto

declare str_nat.simps [simp del]

definition str_int :: "int \<Rightarrow> string" where
  "str_int i = (if i < 0 then CHR ''-'' # str_nat (nat (- i)) else str_nat (nat i))"

section \<open>The storage\<close>

text \<open>
  The text codec is Python's \<^verbatim>\<open>json\<close> module, not code of app.py. A file's content is
  represented by what \<^verbatim>\<open>json.load\<close> makes of it: \<open>Document v\<close> is a text that parses
  to the value \<open>v\<close>, \<open>Unparseable s\<close> is a text \<open>s\<close> on which \<^verbatim>\<open>json.load\<close> raises, and
  \<open>Cut v\<close> is what \<^verbatim>\<open>json.dump\<close> had written of \<open>v\<close> when it raised: the beginning of a
  document, never a whole one, so \<^verbatim>\<open>json.load\<close> raises on it too.
\<close>

datatype content = Document pyval | Unparseable string | Cut pyval

fun json_load :: "content \<Rightarrow> pyerror + pyval" where
  "json_load (Document v) = Inr v"
| "json_load (Unparseable s) = Inl JSONDecodeError"
| "json_load (Cut v) = Inl JSONDecodeError"

text \<open>
  \<^verbatim>\<open>json.dump(data, f, indent=2, ensure_ascii=False)\<close> into a file opened with
  \<^verbatim>\<open>encoding="utf-8"\<close> does not write every value that \<^verbatim>\<open>json.load\<close> returns. With
  \<^verbatim>\<open>ensure_ascii=False\<close> a str goes to the file as it is, and the encoder of the file
  raises \<^verbatim>\<open>UnicodeEncodeError\<close> on a surrogate (code points 55296 to 57343); an int
  of more than 4300 decimal digits raises \<^verbatim>\<open>ValueError\<close> when it is converted (and
  \<^verbatim>\<open>json.load\<close> raises on such a number as well, so no file parses to one). The values
  are written in the order of the document, so the first that fails decides.
\<close>

definition surrogate :: "nat \<Rightarrow> bool" where
  "surrogate c = (55296 \<le> c \<and> c \<le> 57343)"

fun first_error :: "pyerror option list \<Rightarrow> pyerror option" where
  "first_error [] = None"
| "first_error (None # rest) = first_error rest"
| "first_error (Some e # rest) = Some e"

definition int_max_str :: int where
  "int_max_str = 10 ^ 4300"

fun dump_error :: "pyval \<Rightarrow> pyerror option" where
  "dump_error (PInt i) = (if int_max_str \<le> \<bar>i\<bar> then Some ValueError else None)"
| "dump_error (PWide cps) = (if list_ex surrogate cps then Some UnicodeEncodeError else None)"
| "dump_error (PList xs) = first_error (map dump_error xs)"
| "dump_error (PDict kvs) = first_error (map (\<lambda>kv. dump_error (snd kv)) kvs)"
| "dump_error v = None"

definition json_dump :: "pyval \<Rightarrow> pyerror + content" where
  "json_dump v = (case dump_error v of None \<Rightarrow> Inr (Document v) | Some e \<Rightarrow> Inl e)"

text \<open>
  The directory of the application: its files by name, whether the storage refuses
  writes (a read-only or full file system: opening a file for writing and renaming fail
  with \<^verbatim>\<open>OSError\<close>), and a counter of the calls of \<^verbatim>\<open>open(DATA_FILE, "w")\<close>. The counter
  is a ghost field: the program never reads it, it makes "no write was attempted"
  a statement about the state.
\<close>

record disk =
  files :: "string \<rightharpoonup> content"
  read_only :: bool
  write_opens :: nat

definition DATA_FILE :: string where
  "DATA_FILE = ''data.json''"

definition os_path_exists :: "string \<Rightarrow> disk \<Rightarrow> bool" where
  "os_path_exists p dk = (files dk p \<noteq> None)"

definition os_rename :: "string \<Rightarrow> string \<Rightarrow> disk \<Rightarrow> pyerror + disk" where
  "os_rename src dst dk =
     (if read_only dk then Inl OSError
      else Inr (dk\<lparr>files := (files dk)(src := None, dst := files dk src)\<rparr>))"

section \<open>Persistence: \<^verbatim>\<open>load_data\<close> and \<^verbatim>\<open>save_data\<close>\<close>

definition default_items :: "(string \<times> pyval) list" where
  "default_items = [(''todos'', PList []), (''habits'', PList [])]"

definition default_data :: pyval where
  "default_data = PDict default_items"

text \<open>The loop \<^verbatim>\<open>for k, v in default.items(): if k not in raw: raw[k] = v\<close>.\<close>

fun merge_defaults :: "(string \<times> pyval) list \<Rightarrow> pyval \<Rightarrow> pyerror + pyval" where
  "merge_defaults [] raw = Inr raw"
| "merge_defaults ((k, v) # rest) raw =
     (case py_in k raw of
        Inl e \<Rightarrow> Inl e
      | Inr True \<Rightarrow> merge_defaults rest raw
      | Inr False \<Rightarrow>
          (case py_setitem raw k v of
             Inl e \<Rightarrow> Inl e
           | Inr raw' \<Rightarrow> merge_defaults rest raw'))"

text \<open>The body of the \<^verbatim>\<open>try\<close> block of \<^verbatim>\<open>load_data\<close>.\<close>

definition read_and_merge :: "disk \<Rightarrow> pyerror + pyval" where
  "read_and_merge dk =
     (case files dk DATA_FILE of
        None \<Rightarrow> Inl OSError
      | Some c \<Rightarrow>
          (case json_load c of
             Inl e \<Rightarrow> Inl e
           | Inr raw \<Rightarrow> merge_defaults default_items raw))"

text \<open>\<^verbatim>\<open>load_data()\<close>; \<open>epoch\<close> is \<^verbatim>\<open>int(datetime.now().timestamp())\<close>. Every exception
  of the \<^verbatim>\<open>try\<close> block is caught; one raised by \<^verbatim>\<open>os.rename\<close> in the handler is not.\<close>

definition load_data :: "int \<Rightarrow> disk \<Rightarrow> (pyerror + pyval) \<times> disk" where
  "load_data epoch dk =
     (if os_path_exists DATA_FILE dk then
        (case read_and_merge dk of
           Inr raw \<Rightarrow> (Inr raw, dk)
         | Inl _ \<Rightarrow>
             (let backup_name = DATA_FILE @ ''.bak.'' @ str_int epoch in
              case os_rename DATA_FILE backup_name dk of
                Inl e \<Rightarrow> (Inl e, dk)
              | Inr dk' \<Rightarrow> (Inr default_data, dk')))
      else (Inr default_data, dk))"

text \<open>\<^verbatim>\<open>save_data(data)\<close>: \<^verbatim>\<open>open(DATA_FILE, "w")\<close> empties the file, then the whole value
  is written over it; when \<^verbatim>\<open>json.dump\<close> raises, the file keeps what had been written
  and the exception leaves the call.\<close>

definition save_data :: "pyval \<Rightarrow> disk \<Rightarrow> (pyerror + unit) \<times> disk" where
  "save_data data dk =
     (let dk1 = dk\<lparr>write_opens := write_opens dk + 1\<rparr> in
      if read_only dk then (Inl OSError, dk1)
      else
        (case json_dump data of
           Inr c \<Rightarrow> (Inr (), dk1\<lparr>files := (files dk1)(DATA_FILE \<mapsto> c)\<rparr>)
         | Inl e \<Rightarrow> (Inl e, dk1\<lparr>files := (files dk1)(DATA_FILE \<mapsto> Cut data)\<rparr>)))"

section \<open>The record store\<close>

text \<open>
  The state the operations work on: \<^verbatim>\<open>st.session_state.app_data\<close>, as
  \<^verbatim>\<open>ensure_session_state\<close> has set it, and the storage. An operation returns what
  the Python call does (\<open>Inr ()\<close> for a normal return, \<open>Inl e\<close> for an exception that
  leaves the call) together with the state it leaves behind, so that a change made
  before an exception stays visible.
\<close>

record world =
  app_data :: pyval
  disk :: disk

text \<open>The line \<^verbatim>\<open>save_data(st.session_state.app_data)\<close> that ends every mutation.\<close>

definition persist :: "world \<Rightarrow> (pyerror + unit) \<times> world" where
  "persist w = (case save_data (app_data w) (disk w) of (r, dk) \<Rightarrow> (r, w\<lparr>disk := dk\<rparr>))"

text \<open>
  Python objects are shared: a list taken out of a dict and changed in place is changed
  inside the dict. \<open>put_back d k x\<close> is the dict \<open>d\<close> once the object under its key \<open>k\<close>
  has become \<open>x\<close>. \<open>after_loop c xs\<close> is the container \<open>c\<close> once a loop over it has
  changed its elements to \<open>xs\<close>: the elements of a list are the stored objects, while
  iterating over a dict or a str yields strs that no statement can change.
\<close>

fun put_back :: "pyval \<Rightarrow> string \<Rightarrow> pyval \<Rightarrow> pyval" where
  "put_back (PDict kvs) k x = PDict (AList.update k x kvs)"
| "put_back v k x = v"

fun after_loop :: "pyval \<Rightarrow> pyval list \<Rightarrow> pyval" where
  "after_loop (PList ys) xs = PList xs"
| "after_loop c xs = c"

text \<open>\<^verbatim>\<open>new_id()\<close> is \<^verbatim>\<open>str(uuid.uuid4())\<close> and the time stamps come from the clock:
  the operations take the id \<open>nid\<close>, the time \<open>now\<close> (\<^verbatim>\<open>datetime.now().isoformat()\<close>) and
  the date \<open>today\<close> (\<^verbatim>\<open>date.today().isoformat()\<close>) that these calls return.\<close>

definition add_todo :: "string \<Rightarrow> string \<Rightarrow> string \<Rightarrow> world \<Rightarrow> (pyerror + unit) \<times> world" where
  "add_todo nid now text w =
     (if \<not> py_truthy (PStr (strip text)) then (Inr (), w)
      else
        (case py_getitem (app_data w) ''todos'' of
           Inl e \<Rightarrow> (Inl e, w)
         | Inr todos \<Rightarrow>
             (case py_append todos
                     (PDict [(''id'', PStr nid), (''text'', PStr (strip text)),
                             (''done'', PBool False), (''created_at'', PStr now)]) of
                Inl e \<Rightarrow> (Inl e, w)
              | Inr todos' \<Rightarrow> persist (w\<lparr>app_data := put_back (app_data w) ''todos'' todos'\<rparr>))))"








definition add_habit :: "string \<Rightarrow> string \<Rightarrow> string \<Rightarrow> world \<Rightarrow> (pyerror + unit) \<times> world" where
  "add_habit nid now name w =
     (if \<not> py_truthy (PStr (strip name)) then (Inr (), w)
      else
        (case py_getitem (app_data w) ''habits'' of
           Inl e \<Rightarrow> (Inl e, w)
         | Inr habits \<Rightarrow>
             (case py_append habits
                     (PDict [(''id'', PStr nid), (''name'', PStr (strip name)),
                             (''created_at'', PStr now), (''completed_dates'', PList [])]) of
                Inl e \<Rightarrow> (Inl e, w)
              | Inr habits' \<Rightarrow>
                  persist (w\<lparr>app_data := put_back (app_data w) ''habits'' habits'\<rparr>))))"

text \<open>The \<^verbatim>\<open>if\<close>/\<^verbatim>\<open>elif\<close> of \<^verbatim>\<open>toggle_habit_today\<close> on the habit \<open>h\<close> with the id. Both
  conditions read \<^verbatim>\<open>h["completed_dates"]\<close>: the first when \<open>checked\<close> holds, the second
  when it does not.\<close>

definition set_today :: "string \<Rightarrow> bool \<Rightarrow> pyval \<Rightarrow> pyerror + pyval" where
  "set_today today checked h =
     (case py_getitem h ''completed_dates'' of
        Inl e \<Rightarrow> Inl e
      | Inr ds \<Rightarrow>
          (case py_in today ds of
             Inl e \<Rightarrow> Inl e
           | Inr present \<Rightarrow>
               if checked \<and> \<not> present then
                 (case py_append ds (PStr today) of
                    Inl e \<Rightarrow> Inl e
                  | Inr ds' \<Rightarrow> Inr (put_back h ''completed_dates'' ds'))
               else if \<not> checked \<and> present then
                 (case py_remove ds today of
                    Inl e \<Rightarrow> Inl e
                  | Inr ds' \<Rightarrow> Inr (put_back h ''completed_dates'' ds'))
               else Inr h))"

fun set_today_first :: "string \<Rightarrow> string \<Rightarrow> bool \<Rightarrow> pyval list \<Rightarrow> pyerror + pyval list" where
  "set_today_first today i checked [] = Inr []"
| "set_today_first today i checked (h # hs) =
     (case py_getitem h ''id'' of
        Inl e \<Rightarrow> Inl e
      | Inr v \<Rightarrow>
          if v = PStr i then
            (case set_today today checked h of Inl e \<Rightarrow> Inl e | Inr h' \<Rightarrow> Inr (h' # hs))
          else
            (case set_today_first today i checked hs of
               Inl e \<Rightarrow> Inl e
             | Inr hs' \<Rightarrow> Inr (h # hs')))"

definition toggle_habit_today :: "string \<Rightarrow> string \<Rightarrow> bool \<Rightarrow> world \<Rightarrow> (pyerror + unit) \<times> world" where
  "toggle_habit_today today habit_id checked w =
     (case py_getitem (app_data w) ''habits'' of
        Inl e \<Rightarrow> (Inl e, w)
      | Inr habits \<Rightarrow>
          (case py_iter habits of
             Inl e \<Rightarrow> (Inl e, w)
           | Inr hs \<Rightarrow>
               (case set_today_first today habit_id checked hs of
                  Inl e \<Rightarrow> (Inl e, w)
                | Inr hs' \<Rightarrow>
                    persist (w\<lparr>app_data :=
                      put_back (app_data w) ''habits'' (after_loop habits hs')\<rparr>))))"

text \<open>\<^verbatim>\<open>clear_all_data(confirm=False)\<close>: \<open>None\<close> is the call that leaves the argument
  out.\<close>

definition clear_all_data :: "bool option \<Rightarrow> world \<Rightarrow> (pyerror + unit) \<times> world" where
  "clear_all_data confirm w =
     (if (case confirm of None \<Rightarrow> False | Some b \<Rightarrow> b) then
        persist (w\<lparr>app_data := PDict [(''todos'', PList []), (''habits'', PList [])]\<rparr>)
      else (Inr (), w))"

section \<open>Notions used to state the properties\<close>

text \<open>The records of a collection (\<open>todos\<close> or \<open>habits\<close>) of the state, and the ids
  they carry.\<close>

definition records_in :: "string \<Rightarrow> pyval \<Rightarrow> pyval list" where
  "records_in coll d = (case py_getitem d coll of Inr (PList xs) \<Rightarrow> xs | _ \<Rightarrow> [])"

definition id_of :: "pyval \<Rightarrow> pyval option" where
  "id_of t = (case py_getitem t ''id'' of Inr v \<Rightarrow> Some v | Inl e \<Rightarrow> None)"

definition ids_in :: "string \<Rightarrow> pyval \<Rightarrow> pyval list" where
  "ids_in coll d = List.map_filter id_of (records_in coll d)"

definition ids_distinct :: "world \<Rightarrow> bool" where
  "ids_distinct w =
     (distinct (ids_in ''todos'' (app_data w)) \<and> distinct (ids_in ''habits'' (app_data w)))"

text \<open>A sequence of creations, each with the id and the time its call draws.\<close>

datatype call = AddTask string string string | AddHabit string string string

fun call_id :: "call \<Rightarrow> string" where
  "call_id (AddTask nid now body) = nid"
| "call_id (AddHabit nid now name) = nid"

fun run_call :: "call \<Rightarrow> world \<Rightarrow> world" where
  "run_call (AddTask nid now body) w = snd (add_todo nid now body w)"
| "run_call (AddHabit nid now name) w = snd (add_habit nid now name w)"

fun run_calls :: "call list \<Rightarrow> world \<Rightarrow> world" where
  "run_calls [] w = w"
| "run_calls (c # cs) w = run_calls cs (run_call c w)"

text \<open>The id generator never returns an id that the state already holds.\<close>

definition id_unused :: "string \<Rightarrow> world \<Rightarrow> bool" where
  "id_unused nid w =
     (PStr nid \<notin> set (ids_in ''todos'' (app_data w)) \<and>
      PStr nid \<notin> set (ids_in ''habits'' (app_data w)))"

fun fresh_ids :: "call list \<Rightarrow> world \<Rightarrow> bool" where
  "fresh_ids [] w = True"
| "fresh_ids (c # cs) w = (id_unused (call_id c) w \<and> fresh_ids cs (run_call c w))"


definition new_dates :: "string \<Rightarrow> bool \<Rightarrow> pyval list \<Rightarrow> pyval list" where
  "new_dates today checked ds =
     (if checked then (if PStr today \<in> set ds then ds else ds @ [PStr today])
      else remove1 (PStr today) ds)"



text \<open>Worlds for the examples: a session holding one task and one habit, on a storage
  that accepts writes and on one that refuses them.\<close>

definition sample_task :: pyval where
  "sample_task = PDict [(''id'', PStr ''t1''), (''text'', PStr ''buy milk''),
                        (''done'', PBool False), (''created_at'', PStr ''2024-05-01T09:00:00'')]"

definition sample_habit :: pyval where
  "sample_habit = PDict [(''id'', PStr ''h1''), (''name'', PStr ''stretch''),
                         (''created_at'', PStr ''2024-05-01T09:05:00''),
                         (''completed_dates'', PList [PStr ''2024-05-01''])]"

definition sample_data :: pyval where
  "sample_data = PDict [(''todos'', PList [sample_task]), (''habits'', PList [sample_habit])]"

definition sample_disk :: "bool \<Rightarrow> nat \<Rightarrow> disk" where
  "sample_disk ro n = \<lparr>files = [DATA_FILE \<mapsto> Document sample_data], read_only = ro, write_opens = n\<rparr>"

definition sample_world :: "bool \<Rightarrow> world" where
  "sample_world ro = \<lparr>app_data = sample_data, disk = sample_disk ro 0\<rparr>"

text \<open>A state that \<^verbatim>\<open>load_data\<close> returns from a file in which the text of a task
  is the escape of the lone surrogate with code point 55357, and a session whose habit
  holds the same date twice, as \<^verbatim>\<open>load_data\<close> returns it from a file that repeats it.\<close>

definition surrogate_data :: pyval where
  "surrogate_data = PDict
     [(''todos'', PList [PDict [(''id'', PStr ''t1''), (''text'', PWide [55357]),
                                (''done'', PBool False),
                                (''created_at'', PStr ''2024-05-01T09:00:00'')]]),
      (''habits'', PList [])]"


text \<open>Three creations on that session, the last one with a blank input.\<close>

definition sample_calls :: "call list" where
  "sample_calls = [AddTask ''t2'' ''2024-05-02T08:00:00'' ''  call mum '',
                   AddHabit ''h2'' ''2024-05-02T08:00:00'' ''read'',
                   AddTask ''t3'' ''2024-05-02T08:01:00'' ''   '']"

section \<open>Facts about the primitives\<close>

lemma update_absent: "map_of kvs k = None \<Longrightarrow> AList.update k v kvs = kvs @ [(k, v)]"
  by (induction kvs) (auto split: if_splits)

lemma app_data_persist: "app_data (snd (persist w)) = app_data w"
  by (simp add: persist_def save_data_def Let_def split: sum.splits)

lemma fst_persist:
  "fst (persist w) =
     (if read_only (disk w) then Inl OSError
      else (case dump_error (app_data w) of None \<Rightarrow> Inr () | Some e \<Rightarrow> Inl e))"
  by (simp add: persist_def save_data_def json_dump_def Let_def split: option.splits)


lemma one_char_getitem [simp]: "py_getitem (one_char c) k = Inl TypeError"
  by (simp add: one_char_def)


lemma strip_blank: "strip ''   '' = []"
  by (simp add: strip_def is_space_def)

lemma str_int_example: "str_int 1700000000 = ''1700000000''"
  by (simp add: str_int_def str_nat.simps digit_char_def)

lemma merge_defaults_object:
  "merge_defaults default_items (PDict kvs) =
     Inr (PDict (kvs
            @ (if map_of kvs ''todos'' = None then [(''todos'', PList [])] else [])
            @ (if map_of kvs ''habits'' = None then [(''habits'', PList [])] else [])))"
  by (cases "map_of kvs ''todos''"; cases "map_of kvs ''habits''")
     (simp_all add: default_items_def update_absent)

lemma load_data_object:
  assumes "files dk DATA_FILE = Some (Document (PDict kvs))"
  shows "load_data epoch dk =
           (Inr (PDict (kvs
              @ (if map_of kvs ''todos'' = None then [(''todos'', PList [])] else [])
              @ (if map_of kvs ''habits'' = None then [(''habits'', PList [])] else []))), dk)"
  using assms
  by (simp add: load_data_def os_path_exists_def read_and_merge_def merge_defaults_object)

section \<open>Persistence\<close>

lemma save_then_load_written:
  assumes "map_of kvs ''todos'' = Some (PList ts)"
      and "map_of kvs ''habits'' = Some (PList hs)"
      and "\<not> read_only dk"
      and "dump_error (PDict kvs) = None"
  shows "fst (save_data (PDict kvs) dk) = Inr () \<and>
         load_data epoch (snd (save_data (PDict kvs) dk))
           = (Inr (PDict kvs), snd (save_data (PDict kvs) dk))"
  using assms
  by (simp add: save_data_def load_data_def os_path_exists_def read_and_merge_def
      json_dump_def default_items_def Let_def)

lemma load_data_cut:
  assumes "files dk DATA_FILE = Some (Cut v)" and "\<not> read_only dk"
  shows "load_data epoch dk =
           (Inr (PDict [(''todos'', PList []), (''habits'', PList [])]),
            dk\<lparr>files := (files dk)(DATA_FILE := None,
                                    DATA_FILE @ ''.bak.'' @ str_int epoch \<mapsto> Cut v)\<rparr>)"
  using assms
  by (simp add: load_data_def os_path_exists_def read_and_merge_def os_rename_def
      default_data_def default_items_def Let_def)

text \<open>
  C1. The round trip fails on a state that app.py itself reads. A file in which the
  text of a task is the escape of a lone surrogate is loaded as it is: \<^verbatim>\<open>load_data\<close>
  returns that state. \<^verbatim>\<open>save_data\<close> on it, on a storage that accepts writes, ends in
  \<^verbatim>\<open>UnicodeEncodeError\<close> and leaves a cut file; the next \<^verbatim>\<open>load_data\<close> finds the file
  unreadable, moves it to the backup name and returns the two empty collections, not
  the state that was saved.
\<close>

theorem save_fails_on_lone_surrogate:
  "load_data 1700000000
     \<lparr>files = [DATA_FILE \<mapsto> Document surrogate_data], read_only = False, write_opens = 0\<rparr> =
   (Inr surrogate_data,
    \<lparr>files = [DATA_FILE \<mapsto> Document surrogate_data], read_only = False, write_opens = 0\<rparr>) \<and>
   save_data surrogate_data
     \<lparr>files = [DATA_FILE \<mapsto> Document surrogate_data], read_only = False, write_opens = 0\<rparr> =
   (Inl UnicodeEncodeError,
    \<lparr>files = [DATA_FILE \<mapsto> Cut surrogate_data], read_only = False, write_opens = 1\<rparr>) \<and>
   load_data 1700000000
     \<lparr>files = [DATA_FILE \<mapsto> Cut surrogate_data], read_only = False, write_opens = 1\<rparr> =
   (Inr (PDict [(''todos'', PList []), (''habits'', PList [])]),
    \<lparr>files = [''data.json.bak.1700000000'' \<mapsto> Cut surrogate_data],
     read_only = False, write_opens = 1\<rparr>)"
proof -
  have l: "load_data 1700000000
     \<lparr>files = [DATA_FILE \<mapsto> Document surrogate_data], read_only = False, write_opens = 0\<rparr> =
   (Inr surrogate_data,
    \<lparr>files = [DATA_FILE \<mapsto> Document surrogate_data], read_only = False, write_opens = 0\<rparr>)"
    using load_data_object [of
        "\<lparr>files = [DATA_FILE \<mapsto> Document surrogate_data], read_only = False, write_opens = 0\<rparr>"
        "[(''todos'', PList [PDict [(''id'', PStr ''t1''), (''text'', PWide [55357]),
                                (''done'', PBool False),
                                (''created_at'', PStr ''2024-05-01T09:00:00'')]]),
          (''habits'', PList [])]" 1700000000]
    by (simp add: surrogate_data_def)
  have d: "dump_error surrogate_data = Some UnicodeEncodeError"
    by (simp add: surrogate_data_def surrogate_def)
  have s: "save_data surrogate_data
     \<lparr>files = [DATA_FILE \<mapsto> Document surrogate_data], read_only = False, write_opens = 0\<rparr> =
   (Inl UnicodeEncodeError,
    \<lparr>files = [DATA_FILE \<mapsto> Cut surrogate_data], read_only = False, write_opens = 1\<rparr>)"
    by (simp add: save_data_def json_dump_def d)
  have c: "load_data 1700000000
     \<lparr>files = [DATA_FILE \<mapsto> Cut surrogate_data], read_only = False, write_opens = 1\<rparr> =
   (Inr (PDict [(''todos'', PList []), (''habits'', PList [])]),
    \<lparr>files = [''data.json.bak.1700000000'' \<mapsto> Cut surrogate_data],
     read_only = False, write_opens = 1\<rparr>)"
    using load_data_cut [of
        "\<lparr>files = [DATA_FILE \<mapsto> Cut surrogate_data], read_only = False, write_opens = 1\<rparr>"
        surrogate_data 1700000000]
    by (simp add: str_int_example DATA_FILE_def fun_upd_twist)
  show ?thesis using l s c by simp
qed

text \<open>
  C3. Additive migration: a file that holds a JSON object is loaded as that object,
  followed by an empty \<open>todos\<close> list if it has no \<open>todos\<close> and by an empty \<open>habits\<close> list
  if it has no \<open>habits\<close>. Every member the file has is returned as it is, and the file
  is neither renamed nor rewritten.
\<close>

theorem load_merges_defaults:
  assumes "files dk DATA_FILE = Some (Document (PDict kvs))"
  shows "load_data epoch dk =
           (Inr (PDict (kvs
              @ (if map_of kvs ''todos'' = None then [(''todos'', PList [])] else [])
              @ (if map_of kvs ''habits'' = None then [(''habits'', PList [])] else []))), dk)"
  using assms by (rule load_data_object)

theorem load_merges_defaults_witness:
  "load_data 0 \<lparr>files = [DATA_FILE \<mapsto> Document (PDict [(''todos'', PList [PStr ''x''])])],
               read_only = False, write_opens = 0\<rparr> =
     (Inr (PDict [(''todos'', PList [PStr ''x'']), (''habits'', PList [])]),
      \<lparr>files = [DATA_FILE \<mapsto> Document (PDict [(''todos'', PList [PStr ''x''])])],
               read_only = False, write_opens = 0\<rparr>)"
  using load_merges_defaults [of
      "\<lparr>files = [DATA_FILE \<mapsto> Document (PDict [(''todos'', PList [PStr ''x''])])],
               read_only = False, write_opens = 0\<rparr>" "[(''todos'', PList [PStr ''x''])]" 0]
  by simp

section \<open>Creation\<close>

text \<open>
  C4. Blank input: when the input stripped of white space is empty, \<^verbatim>\<open>add_todo\<close> and
  \<^verbatim>\<open>add_habit\<close> return normally and leave the whole world as it was: the state in
  memory, the files, and the count of attempted writes.
\<close>

theorem blank_input_noop:
  assumes "strip body = []"
  shows "add_todo nid now body w = (Inr (), w) \<and> add_habit nid now body w = (Inr (), w)"
  using assms by (simp add: add_todo_def add_habit_def)

theorem blank_input_noop_witness:
  "strip ''   '' = [] \<and>
   add_todo ''t2'' ''2024-05-02T08:00:00'' ''   '' (sample_world True) = (Inr (), sample_world True) \<and>
   add_habit ''h2'' ''2024-05-02T08:00:00'' '''' (sample_world True) = (Inr (), sample_world True)"
proof -
  have b: "strip ''   '' = []" by (rule strip_blank)
  have e: "strip '''' = []" by (simp add: strip_def)
  show ?thesis
    using b blank_input_noop [OF b, of "''t2''" "''2024-05-02T08:00:00''" "sample_world True"]
          blank_input_noop [OF e, of "''h2''" "''2024-05-02T08:00:00''" "sample_world True"]
    by simp
qed

section \<open>Clearing\<close>

text \<open>
  C5, as the code has it. \<^verbatim>\<open>clear_all_data\<close> called with \<^verbatim>\<open>confirm=True\<close> replaces the
  state by the two empty collections and writes it: on a storage that accepts the
  write the file then holds the empty state, on one that refuses it the exception
  leaves the call with the state already replaced.
\<close>

theorem clear_all_confirmed:
  "clear_all_data (Some True) w =
     (if read_only (disk w)
      then (Inl OSError,
            \<lparr>app_data = PDict [(''todos'', PList []), (''habits'', PList [])],
             disk = (disk w)\<lparr>write_opens := write_opens (disk w) + 1\<rparr>\<rparr>)
      else (Inr (),
            \<lparr>app_data = PDict [(''todos'', PList []), (''habits'', PList [])],
             disk = (disk w)\<lparr>files := (files (disk w))(DATA_FILE \<mapsto>
                                Document (PDict [(''todos'', PList []), (''habits'', PList [])])),
                              write_opens := write_opens (disk w) + 1\<rparr>\<rparr>))"
  by (simp add: clear_all_data_def persist_def save_data_def json_dump_def Let_def)

theorem clear_all_confirmed_witness:
  "clear_all_data (Some True) (sample_world False) =
     (Inr (),
      \<lparr>app_data = PDict [(''todos'', PList []), (''habits'', PList [])],
       disk = \<lparr>files = [DATA_FILE \<mapsto> Document (PDict [(''todos'', PList []), (''habits'', PList [])])],
               read_only = False, write_opens = 1\<rparr>\<rparr>)"
  using clear_all_confirmed [of "sample_world False"]
  by (simp add: sample_world_def sample_disk_def)

text \<open>The call that passes no confirmation, on a populated state: nothing is cleared
  and nothing is written.\<close>

theorem clear_all_unconfirmed_keeps_state:
  "clear_all_data None (sample_world False) = (Inr (), sample_world False) \<and>
   app_data (sample_world False) \<noteq> PDict [(''todos'', PList []), (''habits'', PList [])]"
  by (simp add: clear_all_data_def sample_world_def sample_data_def)

text \<open>
  C9. The guard of the store: unless \<^verbatim>\<open>confirm=True\<close> is passed (the argument left
  out, or false), \<^verbatim>\<open>clear_all_data\<close> returns with the world unchanged and no write
  attempted; with \<^verbatim>\<open>confirm=True\<close> the state is replaced by the empty collections and a
  write is attempted, which puts the empty state into the file when the storage
  accepts it.
\<close>

theorem clear_all_needs_confirm:
  "(confirm \<noteq> Some True \<longrightarrow> clear_all_data confirm w = (Inr (), w)) \<and>
   app_data (snd (clear_all_data (Some True) w)) = PDict [(''todos'', PList []), (''habits'', PList [])] \<and>
   write_opens (disk (snd (clear_all_data (Some True) w))) = write_opens (disk w) + 1 \<and>
   (\<not> read_only (disk w) \<longrightarrow>
      files (disk (snd (clear_all_data (Some True) w))) DATA_FILE
        = Some (Document (PDict [(''todos'', PList []), (''habits'', PList [])])))"
  by (cases confirm) (auto simp: clear_all_data_def persist_def save_data_def json_dump_def Let_def)

theorem clear_all_needs_confirm_witness:
  "clear_all_data None (sample_world True) = (Inr (), sample_world True) \<and>
   clear_all_data (Some False) (sample_world True) = (Inr (), sample_world True) \<and>
   files (disk (snd (clear_all_data (Some True) (sample_world False)))) DATA_FILE
        = Some (Document (PDict [(''todos'', PList []), (''habits'', PList [])]))"
  using clear_all_needs_confirm [of None "sample_world True"]
        clear_all_needs_confirm [of "Some False" "sample_world True"]
        clear_all_needs_confirm [of "Some True" "sample_world False"]
  by (simp add: sample_world_def sample_disk_def)

section \<open>Failure of the write\<close>








lemma strip_call_mum: "strip ''  call mum '' = ''call mum''"
  by (simp add: strip_def is_space_def)

lemma strip_read: "strip ''read'' = ''read''"
  by (simp add: strip_def is_space_def)


section \<open>Ids\<close>

lemma records_put_back_same:
  "py_getitem d coll = Inr c \<Longrightarrow> records_in coll (put_back d coll (PList xs)) = xs"
  by (cases d) (auto simp: records_in_def update_conv' split: option.splits)

lemma records_put_back_other:
  "coll' \<noteq> coll \<Longrightarrow> records_in coll' (put_back d coll x) = records_in coll' d"
  by (cases d) (auto simp: records_in_def update_conv' split: option.splits)

lemma add_todo_records:
  "records_in ''todos'' (app_data (snd (add_todo nid now body w))) = records_in ''todos'' (app_data w)
   \<or> (\<exists>r. id_of r = Some (PStr nid) \<and>
        records_in ''todos'' (app_data (snd (add_todo nid now body w)))
          = records_in ''todos'' (app_data w) @ [r])"
proof (cases "strip body = []")
  case True
  then show ?thesis by (simp add: add_todo_def)
next
  case False
  show ?thesis
  proof (cases "py_getitem (app_data w) ''todos''")
    case (Inl e)
    then show ?thesis using False by (simp add: add_todo_def)
  next
    case (Inr c)
    show ?thesis
    proof (cases c)
      case (PList xs)
      then show ?thesis using False Inr
        by (simp add: add_todo_def app_data_persist records_put_back_same id_of_def)
           (simp add: records_in_def)
    qed (use False Inr in \<open>simp_all add: add_todo_def\<close>)
  qed
qed

lemma add_todo_habits:
  "records_in ''habits'' (app_data (snd (add_todo nid now body w)))
     = records_in ''habits'' (app_data w)"
  by (auto simp: add_todo_def app_data_persist records_put_back_other split: sum.splits)

lemma add_habit_records:
  "records_in ''habits'' (app_data (snd (add_habit nid now name w))) = records_in ''habits'' (app_data w)
   \<or> (\<exists>r. id_of r = Some (PStr nid) \<and>
        records_in ''habits'' (app_data (snd (add_habit nid now name w)))
          = records_in ''habits'' (app_data w) @ [r])"
proof (cases "strip name = []")
  case True
  then show ?thesis by (simp add: add_habit_def)
next
  case False
  show ?thesis
  proof (cases "py_getitem (app_data w) ''habits''")
    case (Inl e)
    then show ?thesis using False by (simp add: add_habit_def)
  next
    case (Inr c)
    show ?thesis
    proof (cases c)
      case (PList xs)
      then show ?thesis using False Inr
        by (simp add: add_habit_def app_data_persist records_put_back_same id_of_def)
           (simp add: records_in_def)
    qed (use False Inr in \<open>simp_all add: add_habit_def\<close>)
  qed
qed

lemma add_habit_todos:
  "records_in ''todos'' (app_data (snd (add_habit nid now name w)))
     = records_in ''todos'' (app_data w)"
  by (auto simp: add_habit_def app_data_persist records_put_back_other split: sum.splits)

lemma map_filter_snoc:
  "List.map_filter f (xs @ [x]) = List.map_filter f xs @ (case f x of None \<Rightarrow> [] | Some y \<Rightarrow> [y])"
  by (simp add: List.map_filter_def split: option.splits)

lemma run_call_step:
  assumes "id_unused (call_id c) w" and "ids_distinct w"
  shows "ids_distinct (run_call c w) \<and>
         prefix (records_in ''todos'' (app_data w)) (records_in ''todos'' (app_data (run_call c w))) \<and>
         prefix (records_in ''habits'' (app_data w)) (records_in ''habits'' (app_data (run_call c w)))"
proof (cases c)
  case (AddTask nid now body)
  show ?thesis
    using assms add_todo_records[of nid now body w] add_todo_habits[of nid now body w]
    by (auto simp: AddTask ids_distinct_def id_unused_def ids_in_def map_filter_snoc)
next
  case (AddHabit nid now name)
  show ?thesis
    using assms add_habit_records[of nid now name w] add_habit_todos[of nid now name w]
    by (auto simp: AddHabit ids_distinct_def id_unused_def ids_in_def map_filter_snoc)
qed

text \<open>
  C8. Uniqueness of ids: start from a state whose task ids are pairwise distinct and
  whose habit ids are, and run any sequence of \<^verbatim>\<open>add_todo\<close> and \<^verbatim>\<open>add_habit\<close> calls in
  which every call draws an id that the state of that moment does not hold. Then the
  task ids are still pairwise distinct and so are the habit ids, and the records that
  were there are still there, unchanged and in place, at the head of their collection:
  no id was changed.
\<close>

theorem ids_stay_distinct:
  assumes "fresh_ids cs w" and "ids_distinct w"
  shows "ids_distinct (run_calls cs w) \<and>
         prefix (records_in ''todos'' (app_data w))
                (records_in ''todos'' (app_data (run_calls cs w))) \<and>
         prefix (records_in ''habits'' (app_data w))
                (records_in ''habits'' (app_data (run_calls cs w)))"
  using assms
proof (induction cs arbitrary: w)
  case Nil
  then show ?case by simp
next
  case (Cons c cs)
  from Cons.prems have u: "id_unused (call_id c) w" and f: "fresh_ids cs (run_call c w)"
    by simp_all
  note s = run_call_step[OF u Cons.prems(2)]
  note r = Cons.IH[OF f conjunct1[OF s]]
  show ?case using s r by (auto intro: prefix_order.trans)
qed

lemma sample_calls_run:
  "app_data (run_calls sample_calls (sample_world False)) =
     PDict [(''todos'', PList [sample_task,
              PDict [(''id'', PStr ''t2''), (''text'', PStr ''call mum''), (''done'', PBool False),
                     (''created_at'', PStr ''2024-05-02T08:00:00'')]]),
            (''habits'', PList [sample_habit,
              PDict [(''id'', PStr ''h2''), (''name'', PStr ''read''),
                     (''created_at'', PStr ''2024-05-02T08:00:00''),
                     (''completed_dates'', PList [])]])]"
  by (simp add: sample_calls_def sample_world_def sample_disk_def sample_data_def
      add_todo_def add_habit_def persist_def save_data_def json_dump_def Let_def
      sample_task_def sample_habit_def strip_call_mum strip_read strip_blank)

theorem ids_stay_distinct_witness:
  "fresh_ids sample_calls (sample_world False) \<and> ids_distinct (sample_world False) \<and>
   ids_distinct (run_calls sample_calls (sample_world False)) \<and>
   ids_in ''todos'' (app_data (run_calls sample_calls (sample_world False)))
     = [PStr ''t1'', PStr ''t2''] \<and>
   ids_in ''habits'' (app_data (run_calls sample_calls (sample_world False)))
     = [PStr ''h1'', PStr ''h2'']"
proof -
  note defs = sample_world_def sample_disk_def sample_data_def sample_task_def sample_habit_def
    ids_distinct_def ids_in_def records_in_def id_of_def id_unused_def map_filter_simps
  have d: "ids_distinct (sample_world False)"
    by (simp add: defs)
  have f: "fresh_ids sample_calls (sample_world False)"
    by (simp add: sample_calls_def defs add_todo_def add_habit_def persist_def save_data_def
        json_dump_def Let_def strip_call_mum strip_read strip_blank)
  have i: "ids_in ''todos'' (app_data (run_calls sample_calls (sample_world False)))
             = [PStr ''t1'', PStr ''t2'']"
          "ids_in ''habits'' (app_data (run_calls sample_calls (sample_world False)))
             = [PStr ''h1'', PStr ''h2'']"
    by (simp_all add: sample_calls_run ids_in_def records_in_def id_of_def map_filter_simps
        sample_task_def sample_habit_def)
  show ?thesis
    using ids_stay_distinct [OF f d] f d i by simp
qed

section \<open>Ticking a habit off for today\<close>

lemma set_today_dates:
  assumes "map_of f ''completed_dates'' = Some (PList ds)"
  shows "set_today today checked (PDict f) =
           Inr (PDict (AList.update ''completed_dates'' (PList (new_dates today checked ds)) f))"
  using assms
  by (auto simp: set_today_def new_dates_def update_triv remove1_idem)






lemma set_today_first_found:
  assumes "\<forall>p\<in>set pre. \<exists>v. py_getitem p ''id'' = Inr v \<and> v \<noteq> PStr i"
      and "py_getitem h ''id'' = Inr (PStr i)"
  shows "set_today_first today i checked (pre @ h # post) =
           (case set_today today checked h of Inl e \<Rightarrow> Inl e | Inr h' \<Rightarrow> Inr (pre @ h' # post))"
  using assms by (induction pre) (auto split: sum.splits)


lemma toggle_habit_today_ok:
  assumes "py_getitem (app_data w) ''habits'' = Inr c" and "py_iter c = Inr hs"
      and "set_today_first today i checked hs = Inr hs'"
  shows "toggle_habit_today today i checked w =
     persist (w\<lparr>app_data := put_back (app_data w) ''habits'' (after_loop c hs')\<rparr>)"
  using assms by (simp add: toggle_habit_today_def)







section \<open>Habits without a list of dates\<close>

lemma set_today_first_total:
  assumes "\<forall>h\<in>set hs. \<exists>g v ds. h = PDict g \<and> map_of g ''id'' = Some v \<and>
             map_of g ''completed_dates'' = Some (PList ds)"
  shows "\<exists>hs'. set_today_first today i checked hs = Inr hs'"
  using assms
proof (induction hs)
  case Nil
  then show ?case by simp
next
  case (Cons h hs)
  from Cons.prems obtain g v ds where
    h: "h = PDict g" "map_of g ''id'' = Some v" "map_of g ''completed_dates'' = Some (PList ds)"
    by auto
  from Cons obtain hs' where hs': "set_today_first today i checked hs = Inr hs'"
    by auto
  show ?case
    using h hs' set_today_dates[OF h(3), of today checked] by simp
qed

lemma toggle_habit_today_missing_dates:
  assumes "app_data w = PDict kvs"
      and "map_of kvs ''habits'' = Some (PList (pre @ PDict f # post))"
      and "\<forall>p\<in>set pre. \<exists>v. py_getitem p ''id'' = Inr v \<and> v \<noteq> PStr i"
      and "map_of f ''id'' = Some (PStr i)"
      and "map_of f ''completed_dates'' = None"
  shows "toggle_habit_today today i checked w = (Inl KeyError, w)"
proof -
  have l: "set_today_first today i checked (pre @ PDict f # post) = Inl KeyError"
    using set_today_first_found[OF assms(3), of "PDict f" today checked post] assms(4,5)
    by (simp add: set_today_def)
  show ?thesis
    using assms(1,2) l by (simp add: toggle_habit_today_def)
qed

lemma toggle_habit_today_total:
  assumes "app_data w = PDict kvs" and "map_of kvs ''habits'' = Some (PList hs)"
      and "\<forall>h\<in>set hs. \<exists>g v ds. h = PDict g \<and> map_of g ''id'' = Some v \<and>
             map_of g ''completed_dates'' = Some (PList ds)"
  shows "fst (toggle_habit_today today i checked w) =
           (if read_only (disk w) then Inl OSError
            else (case dump_error (app_data (snd (toggle_habit_today today i checked w))) of
                    None \<Rightarrow> Inr () | Some e \<Rightarrow> Inl e))"
proof -
  from set_today_first_total[OF assms(3), of today i checked]
  obtain hs' where hs': "set_today_first today i checked hs = Inr hs'" ..
  have g: "py_getitem (app_data w) ''habits'' = Inr (PList hs)"
    using assms(1,2) by simp
  show ?thesis
    using toggle_habit_today_ok[OF g _ hs'] by (simp add: fst_persist app_data_persist)
qed

lemma add_habit_has_dates:
  assumes "app_data w = PDict kvs" and "map_of kvs ''habits'' = Some (PList hs)"
      and "strip name \<noteq> []"
  shows "\<exists>r. records_in ''habits'' (app_data (snd (add_habit nid now name w))) = hs @ [r] \<and>
             py_getitem r ''id'' = Inr (PStr nid) \<and>
             py_getitem r ''completed_dates'' = Inr (PList [])"
  using assms
  by (simp add: add_habit_def app_data_persist records_in_def update_conv')

lemma load_keeps_habits:
  assumes "files dk DATA_FILE = Some (Document (PDict kvs))" and "map_of kvs ''habits'' = Some v"
  shows "\<exists>d. load_data epoch dk = (Inr d, dk) \<and> py_getitem d ''habits'' = Inr v"
  using assms load_data_object[OF assms(1), of epoch] by auto

text \<open>
  C10. The precondition of \<^verbatim>\<open>toggle_habit_today\<close>. When the first habit with the id has
  no \<open>completed_dates\<close> key, the call ends in a \<^verbatim>\<open>KeyError\<close> and changes nothing. When
  every habit is a dict with an id and a list under \<open>completed_dates\<close>, the call raises
  nothing of its own: it returns normally unless the write fails, be it that the
  storage refuses it or that \<^verbatim>\<open>json.dump\<close> cannot write the new state. \<^verbatim>\<open>add_habit\<close> creates
  every habit with that key, holding the empty list; \<^verbatim>\<open>load_data\<close> returns the habits
  of the file as they are, so a record that lacks the key there lacks it in the state.
\<close>

theorem toggle_habit_today_needs_dates:
  "(app_data w = PDict kvs \<and> map_of kvs ''habits'' = Some (PList (pre @ PDict f # post)) \<and>
    (\<forall>p\<in>set pre. \<exists>v. py_getitem p ''id'' = Inr v \<and> v \<noteq> PStr i) \<and>
    map_of f ''id'' = Some (PStr i) \<and> map_of f ''completed_dates'' = None \<longrightarrow>
      toggle_habit_today today i checked w = (Inl KeyError, w)) \<and>
   (app_data w = PDict kvs \<and> map_of kvs ''habits'' = Some (PList hs) \<and>
    (\<forall>h\<in>set hs. \<exists>g v ds. h = PDict g \<and> map_of g ''id'' = Some v \<and>
        map_of g ''completed_dates'' = Some (PList ds)) \<longrightarrow>
      fst (toggle_habit_today today i checked w) =
        (if read_only (disk w) then Inl OSError
         else (case dump_error (app_data (snd (toggle_habit_today today i checked w))) of
                 None \<Rightarrow> Inr () | Some e \<Rightarrow> Inl e))) \<and>
   (app_data w = PDict kvs \<and> map_of kvs ''habits'' = Some (PList hs) \<and> strip name \<noteq> [] \<longrightarrow>
      (\<exists>r. records_in ''habits'' (app_data (snd (add_habit nid now name w))) = hs @ [r] \<and>
           py_getitem r ''id'' = Inr (PStr nid) \<and>
           py_getitem r ''completed_dates'' = Inr (PList []))) \<and>
   (files dk DATA_FILE = Some (Document (PDict fkvs)) \<and> map_of fkvs ''habits'' = Some v \<longrightarrow>
      (\<exists>d. load_data epoch dk = (Inr d, dk) \<and> py_getitem d ''habits'' = Inr v))"
  using toggle_habit_today_missing_dates[of w kvs pre f post i today checked]
    toggle_habit_today_total[of w kvs hs today i checked]
    add_habit_has_dates[of w kvs hs name nid now]
    load_keeps_habits[of dk fkvs v epoch]
  by blast

theorem toggle_habit_today_needs_dates_witness:
  "load_data 0 \<lparr>files = [DATA_FILE \<mapsto> Document (PDict [(''habits'',
        PList [PDict [(''id'', PStr ''h1''), (''name'', PStr ''stretch'')]])])],
      read_only = False, write_opens = 0\<rparr> =
     (Inr (PDict [(''habits'', PList [PDict [(''id'', PStr ''h1''), (''name'', PStr ''stretch'')]]),
                  (''todos'', PList [])]),
      \<lparr>files = [DATA_FILE \<mapsto> Document (PDict [(''habits'',
        PList [PDict [(''id'', PStr ''h1''), (''name'', PStr ''stretch'')]])])],
      read_only = False, write_opens = 0\<rparr>) \<and>
   toggle_habit_today ''2024-05-02'' ''h1'' True
     \<lparr>app_data = PDict [(''habits'', PList [PDict [(''id'', PStr ''h1''), (''name'', PStr ''stretch'')]]),
                        (''todos'', PList [])],
      disk = \<lparr>files = [DATA_FILE \<mapsto> Document (PDict [(''habits'',
        PList [PDict [(''id'', PStr ''h1''), (''name'', PStr ''stretch'')]])])],
      read_only = False, write_opens = 0\<rparr>\<rparr> =
     (Inl KeyError,
      \<lparr>app_data = PDict [(''habits'', PList [PDict [(''id'', PStr ''h1''), (''name'', PStr ''stretch'')]]),
                        (''todos'', PList [])],
      disk = \<lparr>files = [DATA_FILE \<mapsto> Document (PDict [(''habits'',
        PList [PDict [(''id'', PStr ''h1''), (''name'', PStr ''stretch'')]])])],
      read_only = False, write_opens = 0\<rparr>\<rparr>) \<and>
   fst (toggle_habit_today ''2024-05-02'' ''h1'' True (sample_world False)) = Inr ()"
proof -
  let ?h = "[(''id'', PStr ''h1''), (''name'', PStr ''stretch'')]"
  let ?kvs = "[(''habits'', PList [PDict ?h]), (''todos'', PList [])]"
  let ?dk = "\<lparr>files = [DATA_FILE \<mapsto> Document (PDict [(''habits'', PList [PDict ?h])])],
      read_only = False, write_opens = 0\<rparr>"
  have l: "load_data 0 ?dk = (Inr (PDict ?kvs), ?dk)"
    using load_data_object[of ?dk "[(''habits'', PList [PDict ?h])]" 0] by simp
  note defs = sample_world_def sample_disk_def sample_data_def sample_task_def sample_habit_def
  show ?thesis
    using l
      toggle_habit_today_needs_dates [where w = "\<lparr>app_data = PDict ?kvs, disk = ?dk\<rparr>"
        and kvs = ?kvs and pre = "[]" and post = "[]" and f = ?h and i = "''h1''"
        and today = "''2024-05-02''" and checked = True]
      toggle_habit_today_needs_dates [where w = "sample_world False"
        and kvs = "[(''todos'', PList [sample_task]), (''habits'', PList [sample_habit])]"
        and hs = "[sample_habit]" and i = "''h1''"
        and today = "''2024-05-02''" and checked = True]
    by (simp add: defs toggle_habit_today_def set_today_def persist_def save_data_def
        json_dump_def Let_def)
qed

section \<open>Recovery from an unreadable file\<close>

lemma merge_defaults_fails:
  assumes "v = PNone \<or> (\<exists>b. v = PBool b) \<or> (\<exists>n. v = PInt n) \<or> (\<exists>x. v = PFloat x)
     \<or> (\<exists>s. v = PStr s \<and> \<not> (str_contains s ''todos'' \<and> str_contains s ''habits''))
     \<or> (\<exists>cps. v = PWide cps \<and>
            \<not> (cps_contains cps (map of_char ''todos'') \<and>
               cps_contains cps (map of_char ''habits'')))
     \<or> (\<exists>xs. v = PList xs \<and> \<not> (PStr ''todos'' \<in> set xs \<and> PStr ''habits'' \<in> set xs))"
  shows "merge_defaults default_items v = Inl TypeError"
  using assms by (auto simp: default_items_def split: bool.splits)

lemma load_data_backup:
  assumes "files dk DATA_FILE = Some c" and "\<not> read_only dk" and "read_and_merge dk = Inl e"
  shows "load_data epoch dk =
           (Inr (PDict [(''todos'', PList []), (''habits'', PList [])]),
            dk\<lparr>files := (files dk)(DATA_FILE := None,
                                    DATA_FILE @ ''.bak.'' @ str_int epoch \<mapsto> c)\<rparr>)"
  using assms
  by (simp add: load_data_def os_path_exists_def os_rename_def default_data_def
      default_items_def Let_def)

text \<open>
  C2, as the code has it. The recovery is driven by the exceptions of the \<^verbatim>\<open>try\<close>
  block alone. When the file exists and its text is not JSON (a file cut by a failed
  write among them), or is a JSON null, boolean or number, or a JSON string or array
  that lacks one of the names \<open>todos\<close> and \<open>habits\<close>, and the storage lets the file be renamed, \<^verbatim>\<open>load_data\<close> moves the file, content
  unchanged, to the name \<open>data.json.bak.\<close> followed by the epoch seconds in decimal, and
  returns the state of two empty collections with no error. A file that holds a JSON
  object is never moved, whatever its members are.
\<close>

theorem load_backs_up:
  "(files dk DATA_FILE = Some c \<and> \<not> read_only dk \<and>
    ((\<exists>s. c = Unparseable s) \<or> (\<exists>v. c = Cut v)
       \<or> c = Document PNone \<or> (\<exists>b. c = Document (PBool b))
       \<or> (\<exists>n. c = Document (PInt n)) \<or> (\<exists>x. c = Document (PFloat x))
       \<or> (\<exists>s. c = Document (PStr s) \<and>
              \<not> (str_contains s ''todos'' \<and> str_contains s ''habits''))
       \<or> (\<exists>cps. c = Document (PWide cps) \<and>
              \<not> (cps_contains cps (map of_char ''todos'') \<and>
                 cps_contains cps (map of_char ''habits'')))
       \<or> (\<exists>xs. c = Document (PList xs) \<and>
              \<not> (PStr ''todos'' \<in> set xs \<and> PStr ''habits'' \<in> set xs))) \<longrightarrow>
      load_data epoch dk =
        (Inr (PDict [(''todos'', PList []), (''habits'', PList [])]),
         dk\<lparr>files := (files dk)(DATA_FILE := None,
                                 DATA_FILE @ ''.bak.'' @ str_int epoch \<mapsto> c)\<rparr>)) \<and>
   (files dk DATA_FILE = Some (Document (PDict kvs)) \<longrightarrow>
      snd (load_data epoch dk) = dk \<and>
      (\<exists>kvs'. fst (load_data epoch dk) = Inr (PDict kvs') \<and>
              (\<forall>k x. map_of kvs k = Some x \<longrightarrow> map_of kvs' k = Some x)))"
proof -
  have backup: "load_data epoch dk =
        (Inr (PDict [(''todos'', PList []), (''habits'', PList [])]),
         dk\<lparr>files := (files dk)(DATA_FILE := None,
                                 DATA_FILE @ ''.bak.'' @ str_int epoch \<mapsto> c)\<rparr>)"
    if a: "files dk DATA_FILE = Some c" "\<not> read_only dk"
      "(\<exists>s. c = Unparseable s) \<or> (\<exists>v. c = Cut v)
       \<or> c = Document PNone \<or> (\<exists>b. c = Document (PBool b))
       \<or> (\<exists>n. c = Document (PInt n)) \<or> (\<exists>x. c = Document (PFloat x))
       \<or> (\<exists>s. c = Document (PStr s) \<and>
              \<not> (str_contains s ''todos'' \<and> str_contains s ''habits''))
       \<or> (\<exists>cps. c = Document (PWide cps) \<and>
              \<not> (cps_contains cps (map of_char ''todos'') \<and>
                 cps_contains cps (map of_char ''habits'')))
       \<or> (\<exists>xs. c = Document (PList xs) \<and>
              \<not> (PStr ''todos'' \<in> set xs \<and> PStr ''habits'' \<in> set xs))"
  proof -
    have "\<exists>e. read_and_merge dk = Inl e"
      using a(1,3) merge_defaults_fails by (cases c) (auto simp: read_and_merge_def)
    then obtain e where "read_and_merge dk = Inl e" ..
    then show ?thesis by (rule load_data_backup[OF a(1,2)])
  qed
  have kept: "snd (load_data epoch dk) = dk \<and>
      (\<exists>kvs'. fst (load_data epoch dk) = Inr (PDict kvs') \<and>
              (\<forall>k x. map_of kvs k = Some x \<longrightarrow> map_of kvs' k = Some x))"
    if "files dk DATA_FILE = Some (Document (PDict kvs))"
    using load_data_object[OF that, of epoch] by (auto simp: map_add_Some_iff)
  show ?thesis
    using backup kept by blast
qed

theorem load_backs_up_witness:
  "load_data 1700000000
     \<lparr>files = [DATA_FILE \<mapsto> Unparseable ''not json''], read_only = False, write_opens = 0\<rparr> =
   (Inr (PDict [(''todos'', PList []), (''habits'', PList [])]),
    \<lparr>files = [''data.json.bak.1700000000'' \<mapsto> Unparseable ''not json''],
     read_only = False, write_opens = 0\<rparr>) \<and>
   snd (load_data 1700000000 (sample_disk False 0)) = sample_disk False 0"
  using load_backs_up [where dk = "\<lparr>files = [DATA_FILE \<mapsto> Unparseable ''not json''],
      read_only = False, write_opens = 0\<rparr>" and c = "Unparseable ''not json''"
      and epoch = 1700000000]
    load_backs_up [where dk = "sample_disk False 0" and kvs = "[(''todos'', PList [sample_task]),
      (''habits'', PList [sample_habit])]" and epoch = 1700000000]
  by (simp add: str_int_example DATA_FILE_def fun_upd_twist sample_disk_def sample_data_def)

text \<open>Two files that are not an object of collections and are nevertheless returned
  as the state, with no backup: an object whose members are numbers, and an array that
  holds the two names.\<close>

theorem load_keeps_non_collections:
  "load_data 1700000000
     \<lparr>files = [DATA_FILE \<mapsto> Document (PDict [(''todos'', PInt 5), (''habits'', PInt 6)])],
      read_only = False, write_opens = 0\<rparr> =
   (Inr (PDict [(''todos'', PInt 5), (''habits'', PInt 6)]),
    \<lparr>files = [DATA_FILE \<mapsto> Document (PDict [(''todos'', PInt 5), (''habits'', PInt 6)])],
      read_only = False, write_opens = 0\<rparr>) \<and>
   load_data 1700000000
     \<lparr>files = [DATA_FILE \<mapsto> Document (PList [PStr ''todos'', PStr ''habits''])],
      read_only = False, write_opens = 0\<rparr> =
   (Inr (PList [PStr ''todos'', PStr ''habits'']),
    \<lparr>files = [DATA_FILE \<mapsto> Document (PList [PStr ''todos'', PStr ''habits''])],
      read_only = False, write_opens = 0\<rparr>)"
  by (simp add: load_data_def os_path_exists_def read_and_merge_def default_items_def)

end
